theory Spec2Isabelle
  imports Main
begin

section \<open>Locators, errors and runtime faults\<close>

text \<open>
  A locator is what a component is registered and looked up under. The container only
  ever builds five-segment descriptors with \<^verbatim>\<open>crefer.NewDescriptor\<close>; a configuration
  section may carry a factory-type hint instead. The segment \<^verbatim>\<open>*\<close> is the wildcard.
\<close>

datatype locator =
    NewDescriptor string string string string string
  | TypeHint string

text \<open>
  Modelled from the spec: descriptor matching belongs to the commons library. Two segments
  match if one of them is the wildcard or they are equal.
\<close>

definition matchField :: "string \<Rightarrow> string \<Rightarrow> bool" where
  "matchField a b = (a = ''*'' \<or> b = ''*'' \<or> a = b)"

text \<open>
  Modelled from the spec: two locators match if every non-wildcard segment is equal; a
  type hint matches only itself.
\<close>

fun locatorMatch :: "locator \<Rightarrow> locator \<Rightarrow> bool" where
  "locatorMatch (NewDescriptor g t k n v) (NewDescriptor g' t' k' n' v') =
     (matchField g g' \<and> matchField t t' \<and> matchField k k' \<and> matchField n n' \<and> matchField v v')"
| "locatorMatch (TypeHint s) (TypeHint s') = (s = s')"
| "locatorMatch (NewDescriptor g t k n v) (TypeHint s') = False"
| "locatorMatch (TypeHint s) (NewDescriptor g' t' k' n' v') = False"

text \<open>
  Error values. \<open>InvalidStateError cid code message\<close> is what
  \<^verbatim>\<open>cerr.NewInvalidStateError(correlationId, code, message)\<close> returns; \<open>BuildError\<close>
  names the locator that no factory could resolve; \<open>ConfigError code message\<close> reports
  malformed configuration; \<open>ErrorsNew msg\<close> is Go's \<^verbatim>\<open>errors.New(msg)\<close>; \<open>ComponentError\<close> is an
  error a component returns from its own lifecycle call.
\<close>

datatype error =
    InvalidStateError string string string
  | BuildError locator
  | ConfigError string string
  | ComponentError string
  | ErrorsNew string

text \<open>
  The value carried by a Go \<^verbatim>\<open>panic\<close>, as \<^verbatim>\<open>recover\<close> returns it: an \<^verbatim>\<open>error\<close> (every
  runtime fault such as a nil dereference is one, and so is what \<^verbatim>\<open>panic(nil)\<close> gives since
  Go 1.21), a \<^verbatim>\<open>string\<close>, or any other value, kept as the text
  \<^verbatim>\<open>cconv.StringConverter.ToString\<close> renders it to.
\<close>

datatype panic =
    PanicError error
  | PanicString string
  | PanicOther string

text \<open>What a lifecycle call on a component does: return nil, return an error, or panic.\<close>

datatype outcome = Done | Fails error | Panics panic

text \<open>A call of a method without result either returns or panics.\<close>

datatype call = Returns | Raises panic

section \<open>ContextInfo, components and factories\<close>

record context_info =
  Name :: string
  Description :: string
  Properties :: "(string \<times> string) list"

text \<open>
  Modelled from the spec: \<^verbatim>\<open>info.NewContextInfo\<close> belongs to the components library. The
  spec gives the three fields; the library starts the name at \<^verbatim>\<open>unknown\<close>.
\<close>

definition NewContextInfo :: context_info where
  "NewContextInfo = \<lparr>Name = ''unknown'', Description = [], Properties = []\<rparr>"

text \<open>
  Components are told apart by the capabilities the container relies on: a ContextInfo
  (the target of the type assertion \<^verbatim>\<open>.(*info.ContextInfo)\<close>), a logger, a component with
  no lifecycle capability, and a component that is openable and closeable, given by what
  its \<^verbatim>\<open>Open\<close> and its \<^verbatim>\<open>Close\<close> do.
\<close>

datatype component =
    ContextInfoC context_info
  | LoggerC string
  | Passive string
  | Service string outcome outcome

text \<open>
  Modelled from the spec: a sub-factory (components library) is a named table from the
  locators it can build to the component it constructs for each.
\<close>

datatype factory = Factory string "(locator \<times> component) list"

type_synonym composite_factory = "factory list"

text \<open>
  Modelled from the spec: \<^verbatim>\<open>cbuild.CompositeFactory\<close> is an ordered collection of
  sub-factories; \<^verbatim>\<open>Add\<close> appends, without looking for duplicates.
\<close>

definition NewCompositeFactory :: composite_factory where
  "NewCompositeFactory = []"

definition Add :: "composite_factory \<Rightarrow> factory \<Rightarrow> composite_factory" where
  "Add c f = c @ [f]"

text \<open>
  The constructors of the eight default sub-factories belong to the components library.
  Each is modelled as a leaf factory for the component kind of its name in the group
  \<^verbatim>\<open>pip-services\<close>; the scenarios of the spec use the console logger and a
  configuration-supplied context-info.
\<close>

text \<open>Modelled from the spec: the context-info factory (\<^verbatim>\<open>info.NewDefaultInfoFactory\<close>).\<close>

definition NewDefaultInfoFactory :: factory where
  "NewDefaultInfoFactory = Factory ''DefaultInfoFactory''
     [(NewDescriptor ''pip-services'' ''context-info'' ''default'' ''*'' ''1.0'',
       ContextInfoC NewContextInfo)]"

text \<open>Modelled from the spec: the logging factory (\<^verbatim>\<open>log.NewDefaultLoggerFactory\<close>).\<close>

definition NewDefaultLoggerFactory :: factory where
  "NewDefaultLoggerFactory = Factory ''DefaultLoggerFactory''
     [(NewDescriptor ''pip-services'' ''logger'' ''null'' ''*'' ''1.0'', LoggerC ''null''),
      (NewDescriptor ''pip-services'' ''logger'' ''console'' ''*'' ''1.0'', LoggerC ''console''),
      (NewDescriptor ''pip-services'' ''logger'' ''composite'' ''*'' ''1.0'', LoggerC ''composite'')]"

text \<open>Modelled from the spec: the counters factory (\<^verbatim>\<open>count.NewDefaultCountersFactory\<close>).\<close>

definition NewDefaultCountersFactory :: factory where
  "NewDefaultCountersFactory = Factory ''DefaultCountersFactory''
     [(NewDescriptor ''pip-services'' ''counters'' ''*'' ''*'' ''1.0'', Passive ''counters'')]"

text \<open>Modelled from the spec: the configuration-reader factory (\<^verbatim>\<open>config.NewDefaultConfigReaderFactory\<close>).\<close>

definition NewDefaultConfigReaderFactory :: factory where
  "NewDefaultConfigReaderFactory = Factory ''DefaultConfigReaderFactory''
     [(NewDescriptor ''pip-services'' ''config-reader'' ''*'' ''*'' ''1.0'', Passive ''config-reader'')]"

text \<open>Modelled from the spec: the cache factory (\<^verbatim>\<open>cache.NewDefaultCacheFactory\<close>).\<close>

definition NewDefaultCacheFactory :: factory where
  "NewDefaultCacheFactory = Factory ''DefaultCacheFactory''
     [(NewDescriptor ''pip-services'' ''cache'' ''*'' ''*'' ''1.0'', Passive ''cache'')]"

text \<open>Modelled from the spec: the credential-store factory (\<^verbatim>\<open>auth.NewDefaultCredentialStoreFactory\<close>).\<close>

definition NewDefaultCredentialStoreFactory :: factory where
  "NewDefaultCredentialStoreFactory = Factory ''DefaultCredentialStoreFactory''
     [(NewDescriptor ''pip-services'' ''credential-store'' ''*'' ''*'' ''1.0'',
       Passive ''credential-store'')]"

text \<open>Modelled from the spec: the discovery factory (\<^verbatim>\<open>connect.NewDefaultDiscoveryFactory\<close>).\<close>

definition NewDefaultDiscoveryFactory :: factory where
  "NewDefaultDiscoveryFactory = Factory ''DefaultDiscoveryFactory''
     [(NewDescriptor ''pip-services'' ''discovery'' ''*'' ''*'' ''1.0'', Passive ''discovery'')]"

text \<open>Modelled from the spec: the test-stub factory (\<^verbatim>\<open>test.NewDefaultTestFactory\<close>).\<close>

definition NewDefaultTestFactory :: factory where
  "NewDefaultTestFactory = Factory ''DefaultTestFactory''
     [(NewDescriptor ''pip-services'' ''shutdown'' ''*'' ''*'' ''1.0'', Passive ''shutdown'')]"

text \<open>\<^verbatim>\<open>NewDefaultContainerFactory\<close> (DefaultContainerFactory.go, lines 20 to 34).\<close>

definition NewDefaultContainerFactory :: composite_factory where
  "NewDefaultContainerFactory =
     (let c = NewCompositeFactory;
          c = Add c NewDefaultInfoFactory;
          c = Add c NewDefaultLoggerFactory;
          c = Add c NewDefaultCountersFactory;
          c = Add c NewDefaultConfigReaderFactory;
          c = Add c NewDefaultCacheFactory;
          c = Add c NewDefaultCredentialStoreFactory;
          c = Add c NewDefaultDiscoveryFactory;
          c = Add c NewDefaultLoggerFactory;
          c = Add c NewDefaultTestFactory
      in c)"

text \<open>\<^verbatim>\<open>NewDefaultContainerFactoryFromFactories\<close> (lines 41 to 49): the loop over the arguments.\<close>

definition NewDefaultContainerFactoryFromFactories :: "factory list \<Rightarrow> composite_factory" where
  "NewDefaultContainerFactoryFromFactories fs = foldl Add NewDefaultContainerFactory fs"

section \<open>Container configuration\<close>

text \<open>
  A configuration section carries a locator (a descriptor or a factory-type hint) and a
  flat parameter set; a container configuration is the ordered sequence of sections.
\<close>

datatype component_config = ComponentConfig locator "(string \<times> string) list"

fun Locator :: "component_config \<Rightarrow> locator" where
  "Locator (ComponentConfig l ps) = l"

type_synonym container_config = "component_config list"

text \<open>
  The raw parameters handed to \<^verbatim>\<open>Configure\<close>: an ordered sequence of sections, each a list
  of key and value.
\<close>

type_synonym config_params = "(string \<times> string) list list"

text \<open>
  Modelled from the spec: a descriptor is written \<^verbatim>\<open>group:type:kind:name:version\<close>; a string
  that does not split into five segments at the colons is not a descriptor.
\<close>

fun splitOn :: "char \<Rightarrow> string \<Rightarrow> string list" where
  "splitOn d [] = [[]]"
| "splitOn d (c # cs) =
     (if c = d then [] # splitOn d cs
      else (case splitOn d cs of [] \<Rightarrow> [[c]] | w # ws \<Rightarrow> (c # w) # ws))"

definition parseDescriptor :: "string \<Rightarrow> locator option" where
  "parseDescriptor s =
     (case splitOn (CHR '':'') s of
        [g, t, k, n, v] \<Rightarrow> Some (NewDescriptor g t k n v)
      | _ \<Rightarrow> None)"

text \<open>
  Modelled from the spec: the readers of the configuration are in this repository's config
  package, which is not among the sources. A section is either
  \<^verbatim>\<open>{descriptor: "group:type:kind:name:version", ...}\<close> or \<^verbatim>\<open>{type: "...", ...}\<close>; anything else
  is malformed and gives a ConfigError.
\<close>

definition ReadComponentConfigFromConfig :: "(string \<times> string) list \<Rightarrow> error + component_config" where
  "ReadComponentConfigFromConfig sect =
     (case map_of sect ''descriptor'' of
        Some d \<Rightarrow>
          (case parseDescriptor d of
             Some l \<Rightarrow> Inr (ComponentConfig l sect)
           | None \<Rightarrow> Inl (ConfigError ''BAD_DESCRIPTOR'' d))
      | None \<Rightarrow>
          (case map_of sect ''type'' of
             Some t \<Rightarrow> Inr (ComponentConfig (TypeHint t) sect)
           | None \<Rightarrow> Inl (ConfigError ''BAD_CONFIG''
                ''Component configuration must have descriptor or type'')))"

text \<open>
  Modelled from the spec: \<^verbatim>\<open>config.ReadContainerConfigFromConfig\<close> reads the sections in
  order and stops at the first malformed one, with no configuration returned beside the
  error.
\<close>

fun readSections :: "config_params \<Rightarrow> container_config \<Rightarrow> container_config \<times> error option" where
  "readSections [] acc = (acc, None)"
| "readSections (sect # rest) acc =
     (case ReadComponentConfigFromConfig sect of
        Inl e \<Rightarrow> ([], Some e)
      | Inr cc \<Rightarrow> readSections rest (acc @ [cc]))"

definition ReadContainerConfigFromConfig :: "config_params \<Rightarrow> container_config \<times> error option" where
  "ReadContainerConfigFromConfig conf = readSections conf []"

section \<open>The reference registry\<close>

text \<open>
  What the registry holds under a locator: a component, or the container's composite
  factory (\<^verbatim>\<open>c.factories\<close>, put there by \<^verbatim>\<open>initReferences\<close>).
\<close>

datatype held = HComponent component | HFactory composite_factory

text \<open>
  Modelled from the spec: \<^verbatim>\<open>refer.ContainerReferences\<close> is in this repository's refer
  package, which is not among the sources. The registry is an ordered mapping from locator
  to component: \<open>Put\<close> appends (duplicates permitted) and entries are never reordered.
\<close>

type_synonym registry = "(locator \<times> held) list"

definition NewContainerReferences :: registry where
  "NewContainerReferences = []"

definition Put :: "registry \<Rightarrow> locator \<Rightarrow> held \<Rightarrow> registry" where
  "Put r l h = r @ [(l, h)]"

text \<open>
  Modelled from the spec: \<open>GetOneOptional\<close> returns the first entry that matches, or nothing,
  never an error. The search goes from the entry registered last to the one registered
  first: this is the order in which a component supplied by the configuration, which is
  registered after the defaults that \<^verbatim>\<open>initReferences\<close> seeds, supersedes them, as step 5 of
  Open in the spec requires.
\<close>

fun firstMatch :: "registry \<Rightarrow> locator \<Rightarrow> held option" where
  "firstMatch [] p = None"
| "firstMatch ((l, h) # r) p = (if locatorMatch l p then Some h else firstMatch r p)"

definition GetOneOptional :: "registry \<Rightarrow> locator \<Rightarrow> held option" where
  "GetOneOptional r p = firstMatch (rev r) p"

text \<open>
  Modelled from the spec: a leaf factory can build a locator that one of its registrations
  matches; the composite resolves by delegating to the first capable sub-factory, in
  registration order, and fails if none is capable.
\<close>

fun registrationFor :: "(locator \<times> component) list \<Rightarrow> locator \<Rightarrow> component option" where
  "registrationFor [] l = None"
| "registrationFor ((p, c) # regs) l = (if locatorMatch p l then Some c else registrationFor regs l)"

fun Create :: "factory \<Rightarrow> locator \<Rightarrow> component option" where
  "Create (Factory n regs) l = registrationFor regs l"

fun CompositeCreate :: "composite_factory \<Rightarrow> locator \<Rightarrow> component option" where
  "CompositeCreate [] l = None"
| "CompositeCreate (f # fs) l =
     (case Create f l of Some c \<Rightarrow> Some c | None \<Rightarrow> CompositeCreate fs l)"

text \<open>
  Modelled from the spec: the factories the registry builds with are the ones it holds,
  which is how the container's factory, put there by \<^verbatim>\<open>initReferences\<close>, reaches
  \<^verbatim>\<open>PutFromConfig\<close>.
\<close>

fun heldFactories :: "registry \<Rightarrow> composite_factory" where
  "heldFactories [] = []"
| "heldFactories ((l, HFactory fs) # r) = fs @ heldFactories r"
| "heldFactories ((l, HComponent c) # r) = heldFactories r"

text \<open>
  Modelled from the spec: \<^verbatim>\<open>PutFromConfig\<close> populates the registry section by section, in
  order, appending each constructed component under the section's locator; it aborts on the
  first section that no factory resolves and returns a build error naming that locator.
  What was appended before stays in the registry.
\<close>

fun PutFromConfig :: "registry \<Rightarrow> container_config \<Rightarrow> registry \<times> error option" where
  "PutFromConfig r [] = (r, None)"
| "PutFromConfig r (s # ss) =
     (case CompositeCreate (heldFactories r) (Locator s) of
        None \<Rightarrow> (r, Some (BuildError (Locator s)))
      | Some built \<Rightarrow> PutFromConfig (Put r (Locator s) (HComponent built)) ss)"

text \<open>
  Modelled from the spec: what the lifecycle call on a held object does. Only a component
  with the capability is called; for the others nothing happens.
\<close>

fun openOf :: "held \<Rightarrow> outcome" where
  "openOf (HComponent (Service n opn cls)) = opn"
| "openOf (HComponent (ContextInfoC i)) = Done"
| "openOf (HComponent (LoggerC n)) = Done"
| "openOf (HComponent (Passive n)) = Done"
| "openOf (HFactory fs) = Done"

fun closeOf :: "held \<Rightarrow> outcome" where
  "closeOf (HComponent (Service n opn cls)) = cls"
| "closeOf (HComponent (ContextInfoC i)) = Done"
| "closeOf (HComponent (LoggerC n)) = Done"
| "closeOf (HComponent (Passive n)) = Done"
| "closeOf (HFactory fs) = Done"

text \<open>
  Modelled from the spec: the registry's \<^verbatim>\<open>Open\<close> opens every openable component in
  registration order and stops at the first failure, which it reports. A panic of a
  component unwinds through the registry, which has no recovery of its own.
\<close>

fun openComponents :: "held list \<Rightarrow> outcome" where
  "openComponents [] = Done"
| "openComponents (h # hs) =
     (case openOf h of
        Done \<Rightarrow> openComponents hs
      | Fails e \<Rightarrow> Fails e
      | Panics p \<Rightarrow> Panics p)"

definition References_Open :: "string \<Rightarrow> registry \<Rightarrow> outcome" where
  "References_Open correlationId r = openComponents (map snd r)"

text \<open>
  Modelled from the spec: the registry's \<^verbatim>\<open>Close\<close> closes every closeable component in
  reverse registration order, collects the errors and always completes; the first error
  collected stands for the aggregate it returns. A panic of a component unwinds.
\<close>

fun closeComponents :: "held list \<Rightarrow> error list \<Rightarrow> outcome" where
  "closeComponents [] errs = (case errs of [] \<Rightarrow> Done | e # es \<Rightarrow> Fails e)"
| "closeComponents (h # hs) errs =
     (case closeOf h of
        Done \<Rightarrow> closeComponents hs errs
      | Fails e \<Rightarrow> closeComponents hs (errs @ [e])
      | Panics p \<Rightarrow> Panics p)"

definition References_Close :: "string \<Rightarrow> registry \<Rightarrow> outcome" where
  "References_Close correlationId r = closeComponents (rev (map snd r)) []"

section \<open>Loggers\<close>

text \<open>
  Modelled from the spec: loggers belong to the components library. A logger is the null
  logger, a logger a caller installs with \<^verbatim>\<open>SetLogger\<close>, or the composite logger built from
  a registry, which forwards to the loggers that registry holds. A logger is never nil
  here, and a call on a logger returns: what a logger does with an entry is outside the
  container.
\<close>

datatype logger = NullLogger | CustomLogger string | CompositeLogger "string list"

fun heldLoggers :: "registry \<Rightarrow> string list" where
  "heldLoggers [] = []"
| "heldLoggers ((l, HComponent (LoggerC n)) # r) =
     (if locatorMatch l (NewDescriptor ''*'' ''logger'' ''*'' ''*'' ''*'')
      then n # heldLoggers r else heldLoggers r)"
| "heldLoggers ((l, HComponent (ContextInfoC i)) # r) = heldLoggers r"
| "heldLoggers ((l, HComponent (Passive n)) # r) = heldLoggers r"
| "heldLoggers ((l, HComponent (Service n opn cls)) # r) = heldLoggers r"
| "heldLoggers ((l, HFactory fs) # r) = heldLoggers r"

definition NewCompositeLoggerFromReferences :: "registry \<Rightarrow> logger" where
  "NewCompositeLoggerFromReferences r = CompositeLogger (heldLoggers r)"

datatype log_level = LevelFatal | LevelError | LevelInfo | LevelTrace

text \<open>
  One call of a logger method: the logger it was made on, the level, the correlation id,
  the error passed (if the method takes one), the format string and its arguments.
\<close>

record log_entry =
  via :: logger
  level :: log_level
  correlation :: string
  cause :: "error option"
  message :: string
  arguments :: "string list"

section \<open>The container\<close>

text \<open>
  The parent a nested container is inherited from: what its \<^verbatim>\<open>SetReferences\<close> does and, if
  it also implements \<^verbatim>\<open>IUnreferenceable\<close>, what its \<^verbatim>\<open>UnsetReferences\<close> does.
\<close>

datatype parent = Parent call "call option"

text \<open>
  The \<^verbatim>\<open>Container\<close> struct (Container.go, lines 75 to 83). A nil registry or parent is
  \<open>None\<close>; of the parent, \<open>referenceable\<close> keeps what its \<^verbatim>\<open>SetReferences\<close> does and
  \<open>unreferenceable\<close> what its \<^verbatim>\<open>UnsetReferences\<close> does. The field \<open>journal\<close> is not a field of
  the struct: it records, in order, every call the container makes on a logger, which is
  the effect of those calls.
\<close>

record container =
  logger :: logger
  factories :: composite_factory
  info :: context_info
  config :: container_config
  references :: "registry option"
  referenceable :: "call option"
  unreferenceable :: "call option"
  journal :: "log_entry list"

definition logCall ::
  "log_level \<Rightarrow> string \<Rightarrow> error option \<Rightarrow> string \<Rightarrow> string list \<Rightarrow> container \<Rightarrow> container" where
  "logCall lv correlationId err msg as c =
     c\<lparr>journal := journal c @
       [\<lparr>via = logger c, level = lv, correlation = correlationId, cause = err,
         message = msg, arguments = as\<rparr>]\<rparr>"

text \<open>\<^verbatim>\<open>NewEmptyContainer\<close> (lines 87 to 93).\<close>

definition NewEmptyContainer :: container where
  "NewEmptyContainer =
     \<lparr>logger = NullLogger,
      factories = NewDefaultContainerFactory,
      info = NewContextInfo,
      config = [],
      references = None,
      referenceable = None,
      unreferenceable = None,
      journal = []\<rparr>"


text \<open>
  \<^verbatim>\<open>InheritContainer\<close> (lines 120 to 130). The type assertion to \<^verbatim>\<open>IUnreferenceable\<close> leaves
  \<open>unreferenceable\<close> nil when the parent does not implement it.
\<close>

definition InheritContainer :: "string \<Rightarrow> string \<Rightarrow> parent option \<Rightarrow> container" where
  "InheritContainer name description p =
     (let c = NewEmptyContainer;
          c = c\<lparr>info := (info c)\<lparr>Name := name\<rparr>\<rparr>;
          c = c\<lparr>info := (info c)\<lparr>Description := description\<rparr>\<rparr>
      in case p of
           None \<Rightarrow> c
         | Some (Parent setRefs unsetRefs) \<Rightarrow>
             c\<lparr>referenceable := Some setRefs, unreferenceable := unsetRefs\<rparr>)"

text \<open>
  \<^verbatim>\<open>Configure\<close> (lines 136 to 138): the error of the reader is assigned to the blank
  identifier; the method has no result.
\<close>

definition Configure :: "config_params \<Rightarrow> container \<Rightarrow> container" where
  "Configure conf c = c\<lparr>config := fst (ReadContainerConfigFromConfig conf)\<rparr>"

text \<open>
  \<^verbatim>\<open>ReadConfigFromFile\<close> (lines 148 to 155). The reader of configuration files is a
  parameter: it takes the correlation id, the path and the parameters and gives a
  configuration and an error, which are stored and returned.
\<close>

definition ReadConfigFromFile ::
  "(string \<Rightarrow> string \<Rightarrow> 'p \<Rightarrow> container_config \<times> error option) \<Rightarrow>
   string \<Rightarrow> string \<Rightarrow> 'p \<Rightarrow> container \<Rightarrow> container \<times> error option" where
  "ReadConfigFromFile ReadFromFile correlationId path parameters c =
     (let (cfg, err) = ReadFromFile correlationId path parameters
      in (c\<lparr>config := cfg\<rparr>, err))"

text \<open>The type assertion \<^verbatim>\<open>.(*info.ContextInfo)\<close> on the result of a lookup.\<close>

fun asContextInfo :: "held option \<Rightarrow> context_info option" where
  "asContextInfo (Some (HComponent (ContextInfoC i))) = Some i"
| "asContextInfo (Some (HComponent (LoggerC n))) = None"
| "asContextInfo (Some (HComponent (Passive n))) = None"
| "asContextInfo (Some (HComponent (Service n opn cls))) = None"
| "asContextInfo (Some (HFactory fs)) = None"
| "asContextInfo None = None"

text \<open>
  \<^verbatim>\<open>initReferences\<close> (lines 157 to 174). The registry is passed by reference and changed in
  place; here the changed registry is returned beside the container.
\<close>

definition initReferences :: "container \<Rightarrow> registry \<Rightarrow> container \<times> registry" where
  "initReferences c refs =
     (let (c, refs) =
            (case asContextInfo (GetOneOptional refs
                    (NewDescriptor ''pip-services'' ''context-info'' ''*'' ''*'' ''1.0'')) of
               None \<Rightarrow>
                 (c, Put refs
                       (NewDescriptor ''pip-services'' ''context-info'' ''default'' ''default'' ''1.0'')
                       (HComponent (ContextInfoC (info c))))
             | Some existingInfo \<Rightarrow> (c\<lparr>info := existingInfo\<rparr>, refs))
      in (c, Put refs
               (NewDescriptor ''pip-services'' ''factory'' ''container'' ''default'' ''1.0'')
               (HFactory (factories c))))"

definition Logger :: "container \<Rightarrow> logger" where
  "Logger c = logger c"

definition SetLogger :: "logger \<Rightarrow> container \<Rightarrow> container" where
  "SetLogger lg c = c\<lparr>logger := lg\<rparr>"


text \<open>
  \<^verbatim>\<open>AddFactory\<close> (lines 192 to 194). The registry of an open container holds the same
  composite factory object, which therefore grows with it.
\<close>

fun shareFactories :: "composite_factory \<Rightarrow> locator \<times> held \<Rightarrow> locator \<times> held" where
  "shareFactories fs (l, HFactory old) = (l, HFactory fs)"
| "shareFactories fs (l, HComponent x) = (l, HComponent x)"

definition AddFactory :: "factory \<Rightarrow> container \<Rightarrow> container" where
  "AddFactory f c =
     (let fs = Add (factories c) f
      in c\<lparr>factories := fs, references := map_option (map (shareFactories fs)) (references c)\<rparr>)"

text \<open>\<^verbatim>\<open>IsOpen\<close> (lines 199 to 201).\<close>

definition IsOpen :: "container \<Rightarrow> bool" where
  "IsOpen c = (case references c of None \<Rightarrow> False | Some refs \<Rightarrow> True)"

text \<open>
  The body of a Go function that has a deferred \<^verbatim>\<open>recover\<close> either reaches a \<^verbatim>\<open>return\<close>
  (\<open>Normal\<close>, with the value returned) or is left by a panic (\<open>Panicking\<close>).
\<close>

datatype 'a flow = Normal 'a | Panicking panic

text \<open>
  \<^verbatim>\<open>Close\<close> (lines 271 to 309), in three parts: the statements after the \<^verbatim>\<open>defer\<close> (lines 290
  to 308), the deferred function (lines 279 to 288), and the guard that precedes both.
\<close>

definition Close_body :: "string \<Rightarrow> registry \<Rightarrow> container \<Rightarrow> container \<times> error option flow" where
  "Close_body correlationId refs c =
     (let c = logCall LevelTrace correlationId None ''Stopping %s container'' [Name (info c)] c
      in case (case unreferenceable c of None \<Rightarrow> Returns | Some unsetReferences \<Rightarrow> unsetReferences) of
           Raises p \<Rightarrow> (c, Panicking p)
         | Returns \<Rightarrow>
             (case References_Close correlationId refs of
                Panics p \<Rightarrow> (c, Panicking p)
              | Done \<Rightarrow>
                  (let c = c\<lparr>references := None\<rparr>
                   in (logCall LevelInfo correlationId None ''Container %s stopped''
                         [Name (info c)] c, Normal None))
              | Fails err \<Rightarrow>
                  (let c = c\<lparr>references := None\<rparr>
                   in (logCall LevelError correlationId (Some err) ''Failed to stop container''
                         [] c, Normal (Some err)))))"

text \<open>
  The deferred function of \<^verbatim>\<open>Close\<close>. \<open>Close_recoverErr\<close> is lines 281 to 285: the recovered
  value itself if it is an error, else \<^verbatim>\<open>errors.New\<close> of its text. The
  \<^verbatim>\<open>err, ok := r.(error)\<close> there declares a variable of its own, and \<^verbatim>\<open>Close\<close> has no named
  result: after a recovered panic \<^verbatim>\<open>Close\<close> returns the zero value of \<^verbatim>\<open>error\<close>, nil.
\<close>

fun Close_recoverErr :: "panic \<Rightarrow> error" where
  "Close_recoverErr (PanicError e) = e"
| "Close_recoverErr (PanicString s) = ErrorsNew s"
| "Close_recoverErr (PanicOther s) = ErrorsNew s"

fun Close_deferred :: "string \<Rightarrow> container \<times> error option flow \<Rightarrow> container \<times> error option" where
  "Close_deferred correlationId (c, Normal res) = (c, res)"
| "Close_deferred correlationId (c, Panicking r) =
     (let err = Close_recoverErr r
      in (logCall LevelError correlationId (Some err) ''Failed to stop container'' [] c, None))"

definition Close :: "string \<Rightarrow> container \<Rightarrow> container \<times> error option" where
  "Close correlationId c =
     (case references c of
        None \<Rightarrow> (c, None)
      | Some refs \<Rightarrow> Close_deferred correlationId (Close_body correlationId refs c))"

text \<open>
  \<^verbatim>\<open>Open\<close> (lines 208 to 264). \<open>Open_populated\<close> is lines 240 to 263, what follows a
  population without error; \<open>Open_body\<close> is lines 230 to 238 and then \<open>Open_populated\<close>;
  \<open>Open_deferred\<close> is the deferred function (lines 217 to 228), which assigns the named
  result \<^verbatim>\<open>err\<close>; \<open>Open_recoverErr\<close> is lines 219 to 223, where a recovered value that is
  neither an error nor a string gives \<^verbatim>\<open>errors.New("")\<close>. The value of a \<^verbatim>\<open>Close\<close> called for
  rollback is dropped.
\<close>

definition Open_populated :: "string \<Rightarrow> registry \<Rightarrow> container \<Rightarrow> container \<times> error option flow" where
  "Open_populated correlationId refs c =
     (case (case referenceable c of None \<Rightarrow> Returns | Some setReferences \<Rightarrow> setReferences) of
        Raises p \<Rightarrow> (c, Panicking p)
      | Returns \<Rightarrow>
          (let c = (case asContextInfo (GetOneOptional refs
                           (NewDescriptor ''*'' ''context-info'' ''*'' ''*'' ''*'')) of
                      Some i \<Rightarrow> c\<lparr>info := i\<rparr>
                    | None \<Rightarrow> c);
               c = c\<lparr>logger := NewCompositeLoggerFromReferences refs\<rparr>
           in case References_Open correlationId refs of
                Done \<Rightarrow>
                  (logCall LevelInfo correlationId None ''Container %s started''
                     [Name (info c)] c, Normal None)
              | Fails err \<Rightarrow>
                  (let c = logCall LevelFatal correlationId (Some err)
                             ''Failed to start container'' [] c
                   in (fst (Close correlationId c), Normal (Some err)))
              | Panics p \<Rightarrow> (c, Panicking p)))"

definition Open_body :: "string \<Rightarrow> container \<Rightarrow> container \<times> error option flow" where
  "Open_body correlationId c =
     (let c = logCall LevelTrace correlationId None ''Starting container.'' [] c;
          c = c\<lparr>references := Some NewContainerReferences\<rparr>;
          (c, refs) = initReferences c NewContainerReferences;
          (refs, err) = PutFromConfig refs (config c);
          c = c\<lparr>references := Some refs\<rparr>
      in case err of
           Some e \<Rightarrow> (c, Normal (Some e))
         | None \<Rightarrow> Open_populated correlationId refs c)"

fun Open_recoverErr :: "panic \<Rightarrow> error" where
  "Open_recoverErr (PanicError e) = e"
| "Open_recoverErr (PanicString msg) = ErrorsNew msg"
| "Open_recoverErr (PanicOther s) = ErrorsNew []"

fun Open_deferred :: "string \<Rightarrow> container \<times> error option flow \<Rightarrow> container \<times> error option" where
  "Open_deferred correlationId (c, Normal err) = (c, err)"
| "Open_deferred correlationId (c, Panicking r) =
     (let recoverErr = Open_recoverErr r;
          c = logCall LevelError correlationId (Some recoverErr) ''Failed to start container'' [] c
      in (fst (Close correlationId c), Some recoverErr))"

definition Open :: "string \<Rightarrow> container \<Rightarrow> container \<times> error option" where
  "Open correlationId c =
     (case references c of
        Some refs \<Rightarrow>
          (c, Some (InvalidStateError correlationId ''ALREADY_OPENED''
                      ''Container was already opened''))
      | None \<Rightarrow> Open_deferred correlationId (Open_body correlationId c))"

text \<open>
  Whether an error was passed to a logger call (of whatever logger the container held at
  that moment, the null logger included).
\<close>

definition logged :: "error \<Rightarrow> container \<Rightarrow> bool" where
  "logged e c = list_ex (\<lambda>entry. cause entry = Some e) (journal c)"

section \<open>Example containers\<close>

text \<open>
  The configuration of the example in the source's documentation: one section with the
  descriptor \<^verbatim>\<open>mygroup:mycomponent1:default:default:1.0\<close>.
\<close>

definition mycomponent_params :: config_params where
  "mycomponent_params =
     [[(''descriptor'', ''mygroup:mycomponent1:default:default:1.0''), (''param1'', ''123'')]]"

text \<open>A container that was given this configuration and no factory for it.\<close>

definition unresolvable_example :: container where
  "unresolvable_example = Configure mycomponent_params NewEmptyContainer"

text \<open>
  A factory for the component of the example, given what the component's \<^verbatim>\<open>Open\<close> and
  \<^verbatim>\<open>Close\<close> do.
\<close>

definition MyComponentFactory :: "outcome \<Rightarrow> outcome \<Rightarrow> factory" where
  "MyComponentFactory opn cls =
     Factory ''MyComponentFactory''
       [(NewDescriptor ''mygroup'' ''mycomponent1'' ''default'' ''*'' ''1.0'',
         Service ''mycomponent1'' opn cls)]"

definition mycomponent_example :: "outcome \<Rightarrow> outcome \<Rightarrow> container" where
  "mycomponent_example opn cls =
     Configure mycomponent_params (AddFactory (MyComponentFactory opn cls) NewEmptyContainer)"

text \<open>The scenario of the spec: a single section for the console logger.\<close>

definition console_example :: container where
  "console_example =
     Configure [[(''descriptor'', ''pip-services:logger:console:default:1.0'')]]
       NewEmptyContainer"


text \<open>Parameters with a section that has neither a descriptor nor a type.\<close>

definition malformed_params :: config_params where
  "malformed_params = [[(''param1'', ''123'')]]"

text \<open>
  A nested container: inherited from a parent with the given \<^verbatim>\<open>SetReferences\<close> and
  \<^verbatim>\<open>UnsetReferences\<close>, with the factory and the configuration of the example.
\<close>

definition nested_example :: "call \<Rightarrow> call option \<Rightarrow> outcome \<Rightarrow> outcome \<Rightarrow> container" where
  "nested_example setRefs unsetRefs opn cls =
     (let c = InheritContainer ''child'' ''nested container'' (Some (Parent setRefs unsetRefs));
          c = AddFactory (MyComponentFactory opn cls) c
      in Configure mycomponent_params c)"

text \<open>
  The registry that \<^verbatim>\<open>Open\<close> builds for a closed container (lines 233 to 235): seeded by
  \<^verbatim>\<open>initReferences\<close>, then populated from the stored configuration.
\<close>

definition populated_of :: "container \<Rightarrow> registry" where
  "populated_of c = fst (PutFromConfig (snd (initReferences c NewContainerReferences)) (config c))"

section \<open>How the operations change the container\<close>

text \<open>A logger call changes the journal only.\<close>

lemma logCall_fields [simp]:
  "references (logCall lv cid e m as c) = references c"
  "info (logCall lv cid e m as c) = info c"
  "logger (logCall lv cid e m as c) = logger c"
  "config (logCall lv cid e m as c) = config c"
  "factories (logCall lv cid e m as c) = factories c"
  "referenceable (logCall lv cid e m as c) = referenceable c"
  "unreferenceable (logCall lv cid e m as c) = unreferenceable c"
  by (simp_all add: logCall_def)

lemma logged_logCall [simp]:
  "logged e (logCall lv cid err m as c) = (err = Some e \<or> logged e c)"
  by (auto simp add: logged_def logCall_def)

lemma logged_references_update [simp]: "logged e (c\<lparr>references := r\<rparr>) = logged e c"
  by (simp add: logged_def)

lemma logged_logger_update [simp]: "logged e (c\<lparr>logger := l\<rparr>) = logged e c"
  by (simp add: logged_def)

lemma logged_info_update [simp]: "logged e (c\<lparr>info := i\<rparr>) = logged e c"
  by (simp add: logged_def)


subsection \<open>The registry\<close>








lemma initReferences_fresh:
  "initReferences c NewContainerReferences =
     (c, [(NewDescriptor ''pip-services'' ''context-info'' ''default'' ''default'' ''1.0'',
          HComponent (ContextInfoC (info c))),
         (NewDescriptor ''pip-services'' ''factory'' ''container'' ''default'' ''1.0'',
          HFactory (factories c))])"
  by (simp add: initReferences_def Put_def NewContainerReferences_def GetOneOptional_def)

lemma initReferences_SetLogger:
  "snd (initReferences (SetLogger lg c) NewContainerReferences)
     = snd (initReferences c NewContainerReferences)"
  by (simp add: initReferences_fresh SetLogger_def)


subsection \<open>Close\<close>

text \<open>Close changes only the registry reference and the journal, and the journal only grows.\<close>

lemma Close_keeps:
  "info (fst (Close cid c)) = info c"
  "logger (fst (Close cid c)) = logger c"
  "config (fst (Close cid c)) = config c"
  "factories (fst (Close cid c)) = factories c"
  by (auto simp: Close_def Close_body_def Let_def
      split: option.splits call.splits outcome.splits panic.splits)



lemma logged_Close: "logged e c \<Longrightarrow> logged e (fst (Close cid c))"
  by (auto simp add: Close_def Close_body_def Let_def
      split: option.splits call.splits outcome.splits)


text \<open>
  What Close does on an open container, by what the parent's \<^verbatim>\<open>UnsetReferences\<close> and the
  registry's \<^verbatim>\<open>Close\<close> do. The registry reference is cleared when the registry's
  \<^verbatim>\<open>Close\<close> returns, with or without an error; it is kept when a panic leaves the body.
\<close>

lemma Close_done:
  "references c = Some refs \<Longrightarrow> unreferenceable c \<in> {None, Some Returns} \<Longrightarrow>
   References_Close cid refs = Done \<Longrightarrow>
   snd (Close cid c) = None \<and> references (fst (Close cid c)) = None"
  by (auto simp add: Close_def Close_body_def Let_def)

lemma Close_error:
  "references c = Some refs \<Longrightarrow> unreferenceable c \<in> {None, Some Returns} \<Longrightarrow>
   References_Close cid refs = Fails e \<Longrightarrow>
   snd (Close cid c) = Some e \<and> logged e (fst (Close cid c))
   \<and> references (fst (Close cid c)) = None"
  by (auto simp add: Close_def Close_body_def Let_def)

lemma Close_fault:
  "references c = Some refs \<Longrightarrow> unreferenceable c \<in> {None, Some Returns} \<Longrightarrow>
   References_Close cid refs = Panics p \<Longrightarrow>
   snd (Close cid c) = None \<and> logged (Close_recoverErr p) (fst (Close cid c))
   \<and> references (fst (Close cid c)) = Some refs"
  by (auto simp add: Close_def Close_body_def Let_def)

lemma Close_unset_fault:
  "references c = Some refs \<Longrightarrow> unreferenceable c = Some (Raises p) \<Longrightarrow>
   snd (Close cid c) = None \<and> logged (Close_recoverErr p) (fst (Close cid c))
   \<and> references (fst (Close cid c)) = Some refs"
  by (simp add: Close_def Close_body_def Let_def)


subsection \<open>Open\<close>

lemma Open_closed:
  "references c = None \<Longrightarrow>
   PutFromConfig (snd (initReferences c NewContainerReferences)) (config c) = (refs, err) \<Longrightarrow>
   Open cid c =
     Open_deferred cid
       (case err of
          Some e \<Rightarrow>
            ((logCall LevelTrace cid None ''Starting container.'' [] c)\<lparr>references := Some refs\<rparr>,
             Normal (Some e))
        | None \<Rightarrow>
            Open_populated cid refs
              ((logCall LevelTrace cid None ''Starting container.'' [] c)\<lparr>references := Some refs\<rparr>))"
  by (simp add: Open_def Open_body_def initReferences_fresh Let_def)

lemma Open_after_population:
  assumes "references c = None"
    and "PutFromConfig (snd (initReferences c NewContainerReferences)) (config c) = (refs, None)"
  shows "Open cid c = Open_deferred cid (Open_populated cid refs
            ((logCall LevelTrace cid None ''Starting container.'' [] c)\<lparr>references := Some refs\<rparr>))"
  by (simp add: Open_closed [OF assms])

lemma Open_population_error:
  assumes "references c = None"
    and "PutFromConfig (snd (initReferences c NewContainerReferences)) (config c) = (refs, Some e)"
  shows "Open cid c =
     ((logCall LevelTrace cid None ''Starting container.'' [] c)\<lparr>references := Some refs\<rparr>, Some e)"
  by (simp add: Open_closed [OF assms])


lemma Open_deferred_keeps:
  "info (fst (Open_deferred cid x)) = info (fst x)"
  "logger (fst (Open_deferred cid x)) = logger (fst x)"
proof -
  obtain c fl where x: "x = (c, fl)" by (cases x)
  show "info (fst (Open_deferred cid x)) = info (fst x)"
    unfolding x by (cases fl) (simp_all add: Let_def Close_keeps)
  show "logger (fst (Open_deferred cid x)) = logger (fst x)"
    unfolding x by (cases fl) (simp_all add: Let_def Close_keeps)
qed

lemma Open_deferred_None:
  "snd (Open_deferred cid x) = None \<Longrightarrow> snd x = Normal None \<and> fst (Open_deferred cid x) = fst x"
proof -
  assume a: "snd (Open_deferred cid x) = None"
  obtain c fl where x: "x = (c, fl)" by (cases x)
  from a show ?thesis unfolding x by (cases fl) (simp_all add: Let_def)
qed


lemma Open_populated_logger:
  "referenceable c \<in> {None, Some Returns} \<Longrightarrow>
   logger (fst (Open_populated cid refs c)) = NewCompositeLoggerFromReferences refs"
  by (auto simp add: Open_populated_def Let_def Close_keeps split: outcome.splits option.splits)


lemma Open_populated_success:
  "snd (Open_populated cid refs c) = Normal None \<Longrightarrow>
   referenceable c \<in> {None, Some Returns} \<and> References_Open cid refs = Done
   \<and> references (fst (Open_populated cid refs c)) = references c"
  by (auto simp add: Open_populated_def Let_def split: outcome.splits option.splits call.splits)


lemma Open_logger:
  assumes "references c = None"
    and "PutFromConfig (snd (initReferences c NewContainerReferences)) (config c) = (refs, None)"
    and "referenceable c \<in> {None, Some Returns}"
  shows "logger (fst (Open cid c)) = NewCompositeLoggerFromReferences refs"
  using assms(3)
  by (simp add: Open_closed [OF assms(1,2)] Open_deferred_keeps Open_populated_logger)


lemma Open_success:
  assumes "references c = None" and "snd (Open cid c) = None"
  shows "\<exists>refs. PutFromConfig (snd (initReferences c NewContainerReferences)) (config c) = (refs, None)
           \<and> referenceable c \<in> {None, Some Returns}
           \<and> References_Open cid refs = Done
           \<and> references (fst (Open cid c)) = Some refs"
proof -
  obtain refs err where p:
    "PutFromConfig (snd (initReferences c NewContainerReferences)) (config c) = (refs, err)"
    by (cases "PutFromConfig (snd (initReferences c NewContainerReferences)) (config c)")
  note o = Open_closed [OF assms(1) p, of cid]
  show ?thesis
  proof (cases err)
    case (Some e)
    with o assms(2) show ?thesis by simp
  next
    case None
    let ?c1 = "(logCall LevelTrace cid None ''Starting container.'' [] c)\<lparr>references := Some refs\<rparr>"
    from None o have o': "Open cid c = Open_deferred cid (Open_populated cid refs ?c1)" by simp
    from assms(2) o' Open_deferred_None [of cid "Open_populated cid refs ?c1"]
    have n: "snd (Open_populated cid refs ?c1) = Normal None"
      and f: "fst (Open cid c) = fst (Open_populated cid refs ?c1)" by simp_all
    from Open_populated_success [OF n] f None p show ?thesis by simp
  qed
qed


text \<open>
  An Open that fails after the population has logged its error and ends with a rollback
  Close on a container that holds the populated registry.
\<close>

lemma Open_rollback:
  assumes closed: "references c = None"
    and p: "PutFromConfig (snd (initReferences c NewContainerReferences)) (config c) = (refs, None)"
    and failed: "snd (Open cid c) = Some e"
  shows "\<exists>c1. fst (Open cid c) = fst (Close cid c1) \<and> references c1 = Some refs
            \<and> unreferenceable c1 = unreferenceable c
            \<and> logged e c1"
proof -
  let ?c0 = "(logCall LevelTrace cid None ''Starting container.'' [] c)\<lparr>references := Some refs\<rparr>"
  note o = Open_after_population [OF closed p, of cid]
  show ?thesis
  proof (cases "case referenceable c of None \<Rightarrow> Returns | Some s \<Rightarrow> s")
    case (Raises q)
    then have "Open_populated cid refs ?c0 = (?c0, Panicking q)"
      by (simp add: Open_populated_def)
    with o failed show ?thesis
      by (auto simp add: Let_def intro!: exI [of _ "logCall LevelError cid (Some (Open_recoverErr q))
            ''Failed to start container'' [] ?c0"])
  next
    case Returns
    show ?thesis
    proof (cases "References_Open cid refs")
      case Done
      with Returns have "snd (Open_populated cid refs ?c0) = Normal None"
        by (simp add: Open_populated_def Let_def)
      with o failed show ?thesis
        by (cases "Open_populated cid refs ?c0") simp
    next
      case (Fails e')
      let ?c5 = "(case asContextInfo (GetOneOptional refs
                           (NewDescriptor ''*'' ''context-info'' ''*'' ''*'' ''*'')) of
                      Some i \<Rightarrow> ?c0\<lparr>info := i\<rparr>
                    | None \<Rightarrow> ?c0)\<lparr>logger := NewCompositeLoggerFromReferences refs\<rparr>"
      let ?c1 = "logCall LevelFatal cid (Some e') ''Failed to start container'' [] ?c5"
      from Fails Returns have "Open_populated cid refs ?c0 = (fst (Close cid ?c1), Normal (Some e'))"
        by (simp add: Open_populated_def Let_def)
      with o failed have "fst (Open cid c) = fst (Close cid ?c1)" and "e' = e" by simp_all
      moreover have "references ?c1 = Some refs" "unreferenceable ?c1 = unreferenceable c"
        by (simp_all split: option.splits)
      moreover have "logged e' ?c1" by simp
      ultimately show ?thesis by blast
    next
      case (Panics q)
      let ?c5 = "(case asContextInfo (GetOneOptional refs
                           (NewDescriptor ''*'' ''context-info'' ''*'' ''*'' ''*'')) of
                      Some i \<Rightarrow> ?c0\<lparr>info := i\<rparr>
                    | None \<Rightarrow> ?c0)\<lparr>logger := NewCompositeLoggerFromReferences refs\<rparr>"
      let ?c1 = "logCall LevelError cid (Some (Open_recoverErr q)) ''Failed to start container'' [] ?c5"
      from Panics Returns have "Open_populated cid refs ?c0 = (?c5, Panicking q)"
        by (simp add: Open_populated_def Let_def)
      with o failed have "fst (Open cid c) = fst (Close cid ?c1)" and "Open_recoverErr q = e"
        by (simp_all add: Let_def)
      moreover have "references ?c1 = Some refs" "unreferenceable ?c1 = unreferenceable c"
        by (simp_all split: option.splits)
      moreover have "logged (Open_recoverErr q) ?c1" by simp
      ultimately show ?thesis by blast
    qed
  qed
qed

lemma Open_parent_fault:
  assumes "references c = None"
    and "PutFromConfig (snd (initReferences c NewContainerReferences)) (config c) = (refs, None)"
    and "referenceable c = Some (Raises q)"
  shows "snd (Open cid c) = Some (Open_recoverErr q)"
  using assms(3) by (simp add: Open_after_population [OF assms(1,2)] Open_populated_def Let_def)

lemma Open_open_error:
  assumes "references c = None"
    and "PutFromConfig (snd (initReferences c NewContainerReferences)) (config c) = (refs, None)"
    and "referenceable c \<in> {None, Some Returns}"
    and "References_Open cid refs = Fails e"
  shows "snd (Open cid c) = Some e"
  using assms(3,4)
  by (auto simp add: Open_after_population [OF assms(1,2)] Open_populated_def Let_def)

lemma Open_open_fault:
  assumes "references c = None"
    and "PutFromConfig (snd (initReferences c NewContainerReferences)) (config c) = (refs, None)"
    and "referenceable c \<in> {None, Some Returns}"
    and "References_Open cid refs = Panics q"
  shows "snd (Open cid c) = Some (Open_recoverErr q)"
  using assms(3,4)
  by (auto simp add: Open_after_population [OF assms(1,2)] Open_populated_def Let_def)

lemma Open_failure_logged:
  assumes "references c = None"
    and "PutFromConfig (snd (initReferences c NewContainerReferences)) (config c) = (refs, None)"
    and "snd (Open cid c) = Some e"
  shows "logged e (fst (Open cid c))"
  using Open_rollback [OF assms] logged_Close by auto


text \<open>
  When the rollback Close is not itself left by a panic, a failed Open leaves the
  container closed.
\<close>

lemma Open_failure_rolled_back:
  assumes "references c = None"
    and "PutFromConfig (snd (initReferences c NewContainerReferences)) (config c) = (refs, None)"
    and "snd (Open cid c) = Some e"
    and "unreferenceable c \<in> {None, Some Returns}"
    and "References_Close cid refs = Done \<or> References_Close cid refs = Fails e'"
  shows "IsOpen (fst (Open cid c)) = False"
proof -
  from Open_rollback [OF assms(1-3)] obtain c1 where
    c1: "fst (Open cid c) = fst (Close cid c1)" "references c1 = Some refs"
      "unreferenceable c1 = unreferenceable c" by blast
  from assms(4) c1(3) have u: "unreferenceable c1 \<in> {None, Some Returns}" by simp
  from assms(5) Close_done [OF c1(2) u] Close_error [OF c1(2) u]
  have "references (fst (Close cid c1)) = None" by blast
  with c1(1) show ?thesis by (simp add: IsOpen_def)
qed

text \<open>When the rollback Close is left by a panic, the container stays open.\<close>

lemma Open_failure_rollback_fault:
  assumes "references c = None"
    and "PutFromConfig (snd (initReferences c NewContainerReferences)) (config c) = (refs, None)"
    and "snd (Open cid c) = Some e"
    and "unreferenceable c \<in> {None, Some Returns}"
    and "References_Close cid refs = Panics q"
  shows "IsOpen (fst (Open cid c)) = True"
proof -
  from Open_rollback [OF assms(1-3)] obtain c1 where
    c1: "fst (Open cid c) = fst (Close cid c1)" "references c1 = Some refs"
      "unreferenceable c1 = unreferenceable c" by blast
  from assms(4) c1(3) have u: "unreferenceable c1 \<in> {None, Some Returns}" by simp
  from Close_fault [OF c1(2) u assms(5)] c1(1) show ?thesis by (simp add: IsOpen_def)
qed

subsection \<open>Configure\<close>

lemma readSections_error: "readSections conf acc = (cfg, Some e) \<Longrightarrow> cfg = []"
  by (induction conf arbitrary: acc) (auto split: sum.splits)

lemma Configure_malformed:
  "snd (ReadContainerConfigFromConfig conf) = Some e \<Longrightarrow> Configure conf c = c\<lparr>config := []\<rparr>"
proof -
  assume a: "snd (ReadContainerConfigFromConfig conf) = Some e"
  obtain cfg where "readSections conf [] = (cfg, Some e)"
    using a by (cases "readSections conf []") (simp add: ReadContainerConfigFromConfig_def)
  then have "fst (ReadContainerConfigFromConfig conf) = []"
    by (simp add: ReadContainerConfigFromConfig_def readSections_error)
  then show ?thesis by (simp add: Configure_def)
qed

section \<open>Properties of the default factory and of Configure\<close>

text \<open>
  C8. The default container factory registers exactly nine sub-factories, in this order:
  context-info, logging, counters, configuration reader, cache, credential store,
  discovery, logging a second time, and the test factory. The second registration of the
  logging factory is kept: the factory occurs twice.
\<close>

theorem default_factory_nine_in_order:
  "NewDefaultContainerFactory =
     [NewDefaultInfoFactory, NewDefaultLoggerFactory, NewDefaultCountersFactory,
      NewDefaultConfigReaderFactory, NewDefaultCacheFactory,
      NewDefaultCredentialStoreFactory, NewDefaultDiscoveryFactory,
      NewDefaultLoggerFactory, NewDefaultTestFactory]
   \<and> length NewDefaultContainerFactory = 9
   \<and> count_list NewDefaultContainerFactory NewDefaultLoggerFactory = 2"
proof -
  have nine: "NewDefaultContainerFactory =
     [NewDefaultInfoFactory, NewDefaultLoggerFactory, NewDefaultCountersFactory,
      NewDefaultConfigReaderFactory, NewDefaultCacheFactory,
      NewDefaultCredentialStoreFactory, NewDefaultDiscoveryFactory,
      NewDefaultLoggerFactory, NewDefaultTestFactory]"
    by (simp add: NewDefaultContainerFactory_def NewCompositeFactory_def Add_def)
  have len: "length NewDefaultContainerFactory = 9"
    unfolding nine by simp
  have twice: "count_list NewDefaultContainerFactory NewDefaultLoggerFactory = 2"
    unfolding nine
    by (simp add: NewDefaultInfoFactory_def NewDefaultLoggerFactory_def
        NewDefaultCountersFactory_def NewDefaultConfigReaderFactory_def
        NewDefaultCacheFactory_def NewDefaultCredentialStoreFactory_def
        NewDefaultDiscoveryFactory_def NewDefaultTestFactory_def)
  from nine len twice show ?thesis by blast
qed




section \<open>Open on an open container\<close>

text \<open>
  C5. On a container whose registry is set, Open returns the InvalidState error with code
  ALREADY_OPENED and does nothing else: the container it leaves is the container it
  found, with the same registry and held components, configuration, logger and
  ContextInfo, and no call to a logger was made.
\<close>

theorem Open_already_opened:
  "IsOpen c \<Longrightarrow>
   Open correlationId c =
     (c, Some (InvalidStateError correlationId ''ALREADY_OPENED''
                 ''Container was already opened''))"
  by (simp add: IsOpen_def Open_def split: option.splits)

text \<open>The theorem at the container of the console logger scenario, once opened.\<close>

theorem Open_already_opened_witness:
  "IsOpen (fst (Open ''123'' console_example)) \<and>
   Open ''456'' (fst (Open ''123'' console_example)) =
     (fst (Open ''123'' console_example),
      Some (InvalidStateError ''456'' ''ALREADY_OPENED'' ''Container was already opened''))"
proof -
  have h: "IsOpen (fst (Open ''123'' console_example))" by code_simp
  from h Open_already_opened [OF h, of "''456''"] show ?thesis by blast
qed

section \<open>Seeding of the registry\<close>



section \<open>The logger after Open\<close>

text \<open>
  C10, as amended. After every Open of a closed container whose population returns no
  error and whose parent's \<^verbatim>\<open>SetReferences\<close> does not panic, the logger is the composite
  logger built from the populated registry, whatever logger was in place before (also one
  installed with \<^verbatim>\<open>SetLogger\<close>). After a successful Open, \<^verbatim>\<open>Logger()\<close> is the composite
  logger of the registry the container holds.
\<close>

theorem Open_installs_composite_logger:
  "(references c = None \<longrightarrow>
      PutFromConfig (snd (initReferences c NewContainerReferences)) (config c) = (populated, None) \<longrightarrow>
      referenceable c \<in> {None, Some Returns} \<longrightarrow>
        Logger (fst (Open correlationId c)) = NewCompositeLoggerFromReferences populated
      \<and> Logger (fst (Open correlationId (SetLogger lg c)))
          = NewCompositeLoggerFromReferences populated)
   \<and> (references c = None \<longrightarrow> snd (Open correlationId c) = None \<longrightarrow>
        (\<exists>held. references (fst (Open correlationId c)) = Some held
           \<and> Logger (fst (Open correlationId c)) = NewCompositeLoggerFromReferences held))"
proof (intro conjI impI)
  assume closed: "references c = None"
    and p: "PutFromConfig (snd (initReferences c NewContainerReferences)) (config c) = (populated, None)"
    and par: "referenceable c \<in> {None, Some Returns}"
  from Open_logger [OF closed p par]
  show "Logger (fst (Open correlationId c)) = NewCompositeLoggerFromReferences populated"
    by (simp add: Logger_def)
  have closed': "references (SetLogger lg c) = None"
    and par': "referenceable (SetLogger lg c) \<in> {None, Some Returns}"
    and p': "PutFromConfig (snd (initReferences (SetLogger lg c) NewContainerReferences))
        (config (SetLogger lg c)) = (populated, None)"
    using closed par p by (simp_all add: initReferences_SetLogger) (simp_all add: SetLogger_def)
  from Open_logger [OF closed' p' par']
  show "Logger (fst (Open correlationId (SetLogger lg c)))
      = NewCompositeLoggerFromReferences populated"
    by (simp add: Logger_def)
next
  assume closed: "references c = None" and ok: "snd (Open correlationId c) = None"
  from Open_success [OF closed ok] obtain held where
    p: "PutFromConfig (snd (initReferences c NewContainerReferences)) (config c) = (held, None)"
    and par: "referenceable c \<in> {None, Some Returns}"
    and r: "references (fst (Open correlationId c)) = Some held" by blast
  from Open_logger [OF closed p par, of correlationId] r
  show "\<exists>held. references (fst (Open correlationId c)) = Some held
           \<and> Logger (fst (Open correlationId c)) = NewCompositeLoggerFromReferences held"
    by (simp add: Logger_def)
qed

text \<open>
  The theorem at the container of the console logger scenario, as it is and with a logger
  installed before Open.
\<close>

theorem Open_installs_composite_logger_witness:
  "references console_example = None
   \<and> referenceable console_example \<in> {None, Some Returns}
   \<and> PutFromConfig (snd (initReferences console_example NewContainerReferences))
         (config console_example) =
       ([(NewDescriptor ''pip-services'' ''context-info'' ''default'' ''default'' ''1.0'',
          HComponent (ContextInfoC NewContextInfo)),
         (NewDescriptor ''pip-services'' ''factory'' ''container'' ''default'' ''1.0'',
          HFactory NewDefaultContainerFactory),
         (NewDescriptor ''pip-services'' ''logger'' ''console'' ''default'' ''1.0'',
          HComponent (LoggerC ''console''))], None)
   \<and> snd (Open ''123'' console_example) = None
   \<and> Logger (fst (Open ''123'' console_example)) = CompositeLogger [''console'']
   \<and> Logger (fst (Open ''123'' (SetLogger (CustomLogger ''mine'') console_example)))
       = CompositeLogger [''console'']"
proof -
  have closed: "references console_example = None" by code_simp
  have par: "referenceable console_example \<in> {None, Some Returns}" by code_simp
  have p: "PutFromConfig (snd (initReferences console_example NewContainerReferences))
         (config console_example) =
       ([(NewDescriptor ''pip-services'' ''context-info'' ''default'' ''default'' ''1.0'',
          HComponent (ContextInfoC NewContextInfo)),
         (NewDescriptor ''pip-services'' ''factory'' ''container'' ''default'' ''1.0'',
          HFactory NewDefaultContainerFactory),
         (NewDescriptor ''pip-services'' ''logger'' ''console'' ''default'' ''1.0'',
          HComponent (LoggerC ''console''))], None)"
    by code_simp
  have ok: "snd (Open ''123'' console_example) = None" by code_simp
  have composite: "NewCompositeLoggerFromReferences
       [(NewDescriptor ''pip-services'' ''context-info'' ''default'' ''default'' ''1.0'',
          HComponent (ContextInfoC NewContextInfo)),
         (NewDescriptor ''pip-services'' ''factory'' ''container'' ''default'' ''1.0'',
          HFactory NewDefaultContainerFactory),
         (NewDescriptor ''pip-services'' ''logger'' ''console'' ''default'' ''1.0'',
          HComponent (LoggerC ''console''))] = CompositeLogger [''console'']"
    by code_simp
  from Open_installs_composite_logger
    [of console_example _ "''123''" "CustomLogger ''mine''"] closed p par
  have "Logger (fst (Open ''123'' console_example)) = CompositeLogger [''console'']
      \<and> Logger (fst (Open ''123'' (SetLogger (CustomLogger ''mine'') console_example)))
       = CompositeLogger [''console'']"
    unfolding composite [symmetric] by blast
  with closed par p ok show ?thesis by blast
qed

text \<open>
  C10 as stated does not hold: an Open that reaches the population and fails there returns
  at line 237, before the logger is replaced. The container of the unresolvable section
  has seeded its registry, and its logger is still the null logger.
\<close>

theorem Open_keeps_logger_when_population_fails:
  "references unresolvable_example = None
   \<and> snd (Open ''123'' unresolvable_example) =
       Some (BuildError (NewDescriptor ''mygroup'' ''mycomponent1'' ''default'' ''default'' ''1.0''))
   \<and> references (fst (Open ''123'' unresolvable_example)) =
       Some [(NewDescriptor ''pip-services'' ''context-info'' ''default'' ''default'' ''1.0'',
              HComponent (ContextInfoC NewContextInfo)),
             (NewDescriptor ''pip-services'' ''factory'' ''container'' ''default'' ''1.0'',
              HFactory NewDefaultContainerFactory)]
   \<and> Logger (fst (Open ''123'' unresolvable_example)) = NullLogger
   \<and> Logger (fst (Open ''123'' unresolvable_example)) \<noteq>
       NewCompositeLoggerFromReferences
         [(NewDescriptor ''pip-services'' ''context-info'' ''default'' ''default'' ''1.0'',
           HComponent (ContextInfoC NewContextInfo)),
          (NewDescriptor ''pip-services'' ''factory'' ''container'' ''default'' ''1.0'',
           HFactory NewDefaultContainerFactory)]"
  by code_simp

section \<open>Errors and faults\<close>

text \<open>
  C6, as amended. Every error or captured runtime fault that arises during Open or Close
  is returned to the caller or passed to a logger call: the panic of the parent's
  \<^verbatim>\<open>UnsetReferences\<close> or \<^verbatim>\<open>SetReferences\<close>, the error or panic of the registry's \<^verbatim>\<open>Close\<close> and
  \<^verbatim>\<open>Open\<close>, the build error of the population, and what goes wrong in the rollback Close of
  a failed Open. Configure is the exception: it makes no logger call and has no result, and
  on malformed parameters it only empties the stored configuration.
\<close>

theorem errors_returned_or_logged:
  "journal (Configure conf c) = journal c
   \<and> (snd (ReadContainerConfigFromConfig conf) = Some e \<longrightarrow> Configure conf c = c\<lparr>config := []\<rparr>)
   \<and> (references c = Some refs \<longrightarrow>
        (unreferenceable c = Some (Raises p) \<longrightarrow>
           logged (Close_recoverErr p) (fst (Close correlationId c)))
      \<and> (unreferenceable c \<in> {None, Some Returns} \<longrightarrow>
           (References_Close correlationId refs = Fails e \<longrightarrow>
              snd (Close correlationId c) = Some e \<and> logged e (fst (Close correlationId c)))
         \<and> (References_Close correlationId refs = Panics p \<longrightarrow>
              logged (Close_recoverErr p) (fst (Close correlationId c)))))
   \<and> (references c = None \<longrightarrow>
        (PutFromConfig (snd (initReferences c NewContainerReferences)) (config c) = (refs, Some e) \<longrightarrow>
           snd (Open correlationId c) = Some e)
      \<and> (PutFromConfig (snd (initReferences c NewContainerReferences)) (config c) = (refs, None) \<longrightarrow>
           (referenceable c = Some (Raises p) \<longrightarrow>
              snd (Open correlationId c) = Some (Open_recoverErr p)
              \<and> logged (Open_recoverErr p) (fst (Open correlationId c)))
         \<and> (referenceable c \<in> {None, Some Returns} \<longrightarrow>
              (References_Open correlationId refs = Fails e \<longrightarrow>
                 snd (Open correlationId c) = Some e \<and> logged e (fst (Open correlationId c)))
            \<and> (References_Open correlationId refs = Panics p \<longrightarrow>
                 snd (Open correlationId c) = Some (Open_recoverErr p)
                 \<and> logged (Open_recoverErr p) (fst (Open correlationId c))))
         \<and> (snd (Open correlationId c) = Some e' \<longrightarrow>
              (unreferenceable c = Some (Raises p') \<longrightarrow>
                 logged (Close_recoverErr p') (fst (Open correlationId c)))
            \<and> (unreferenceable c \<in> {None, Some Returns} \<longrightarrow>
                 (References_Close correlationId refs = Fails e'' \<longrightarrow>
                    logged e'' (fst (Open correlationId c)))
               \<and> (References_Close correlationId refs = Panics p' \<longrightarrow>
                    logged (Close_recoverErr p') (fst (Open correlationId c)))))))"
proof (intro conjI impI)
  show "journal (Configure conf c) = journal c" by (simp add: Configure_def)
next
  assume "snd (ReadContainerConfigFromConfig conf) = Some e"
  then show "Configure conf c = c\<lparr>config := []\<rparr>" by (rule Configure_malformed)
next
  assume "references c = Some refs" "unreferenceable c = Some (Raises p)"
  then show "logged (Close_recoverErr p) (fst (Close correlationId c))"
    by (simp add: Close_unset_fault)
next
  assume "references c = Some refs" "unreferenceable c \<in> {None, Some Returns}"
    "References_Close correlationId refs = Fails e"
  then show "snd (Close correlationId c) = Some e" "logged e (fst (Close correlationId c))"
    by (simp_all add: Close_error)
next
  assume "references c = Some refs" "unreferenceable c \<in> {None, Some Returns}"
    "References_Close correlationId refs = Panics p"
  then show "logged (Close_recoverErr p) (fst (Close correlationId c))"
    by (simp add: Close_fault)
next
  assume "references c = None"
    "PutFromConfig (snd (initReferences c NewContainerReferences)) (config c) = (refs, Some e)"
  then show "snd (Open correlationId c) = Some e" by (simp add: Open_population_error)
next
  assume a: "references c = None"
    "PutFromConfig (snd (initReferences c NewContainerReferences)) (config c) = (refs, None)"
    and b: "referenceable c = Some (Raises p)"
  from Open_parent_fault [OF a b]
  show r: "snd (Open correlationId c) = Some (Open_recoverErr p)" .
  from Open_failure_logged [OF a r]
  show "logged (Open_recoverErr p) (fst (Open correlationId c))" .
next
  assume a: "references c = None"
    "PutFromConfig (snd (initReferences c NewContainerReferences)) (config c) = (refs, None)"
    and b: "referenceable c \<in> {None, Some Returns}"
    and f: "References_Open correlationId refs = Fails e"
  from Open_open_error [OF a b f]
  show r: "snd (Open correlationId c) = Some e" .
  from Open_failure_logged [OF a r]
  show "logged e (fst (Open correlationId c))" .
next
  assume a: "references c = None"
    "PutFromConfig (snd (initReferences c NewContainerReferences)) (config c) = (refs, None)"
    and b: "referenceable c \<in> {None, Some Returns}"
    and f: "References_Open correlationId refs = Panics p"
  from Open_open_fault [OF a b f]
  show r: "snd (Open correlationId c) = Some (Open_recoverErr p)" .
  from Open_failure_logged [OF a r]
  show "logged (Open_recoverErr p) (fst (Open correlationId c))" .
next
  assume a: "references c = None"
    "PutFromConfig (snd (initReferences c NewContainerReferences)) (config c) = (refs, None)"
    "snd (Open correlationId c) = Some e'"
    and u: "unreferenceable c = Some (Raises p')"
  from Open_rollback [OF a] u
  show "logged (Close_recoverErr p') (fst (Open correlationId c))"
    by (auto simp add: Close_unset_fault)
next
  assume a: "references c = None"
    "PutFromConfig (snd (initReferences c NewContainerReferences)) (config c) = (refs, None)"
    "snd (Open correlationId c) = Some e'"
    and u: "unreferenceable c \<in> {None, Some Returns}"
    and f: "References_Close correlationId refs = Fails e''"
  from Open_rollback [OF a] obtain c1 where
    c1: "fst (Open correlationId c) = fst (Close correlationId c1)" "references c1 = Some refs"
      "unreferenceable c1 = unreferenceable c" by blast
  from Close_error [OF c1(2) _ f] u c1(1,3)
  show "logged e'' (fst (Open correlationId c))" by simp
next
  assume a: "references c = None"
    "PutFromConfig (snd (initReferences c NewContainerReferences)) (config c) = (refs, None)"
    "snd (Open correlationId c) = Some e'"
    and u: "unreferenceable c \<in> {None, Some Returns}"
    and f: "References_Close correlationId refs = Panics p'"
  from Open_rollback [OF a] obtain c1 where
    c1: "fst (Open correlationId c) = fst (Close correlationId c1)" "references c1 = Some refs"
      "unreferenceable c1 = unreferenceable c" by blast
  from Close_fault [OF c1(2) _ f] u c1(1,3)
  show "logged (Close_recoverErr p') (fst (Open correlationId c))" by simp
qed

text \<open>
  The theorem at malformed parameters, at open containers whose Close meets an error, a
  panic of a component and a panic of the parent, and at closed containers whose Open meets
  an unresolvable section, a panic of the parent, an error and a panic of a component, each
  with a rollback Close that goes wrong as well.
\<close>

theorem errors_returned_or_logged_witness:
  "Configure malformed_params NewEmptyContainer = NewEmptyContainer\<lparr>config := []\<rparr>
   \<and> snd (Close ''123'' (fst (Open ''123''
          (mycomponent_example Done (Fails (ComponentError ''close failed''))))))
       = Some (ComponentError ''close failed'')
   \<and> logged (ComponentError ''close failed'')
        (fst (Close ''123'' (fst (Open ''123''
          (mycomponent_example Done (Fails (ComponentError ''close failed'')))))))
   \<and> logged (ErrorsNew ''close failed'')
        (fst (Close ''123'' (fst (Open ''123''
          (mycomponent_example Done (Panics (PanicString ''close failed'')))))))
   \<and> logged (ErrorsNew ''unset failed'')
        (fst (Close ''123'' (fst (Open ''123''
          (nested_example Returns (Some (Raises (PanicString ''unset failed''))) Done Done)))))
   \<and> snd (Open ''123'' unresolvable_example)
       = Some (BuildError (NewDescriptor ''mygroup'' ''mycomponent1'' ''default'' ''default'' ''1.0''))
   \<and> snd (Open ''123'' (nested_example (Raises (PanicOther ''42'')) None Done Done))
       = Some (ErrorsNew [])
   \<and> logged (ErrorsNew [])
        (fst (Open ''123'' (nested_example (Raises (PanicOther ''42'')) None Done Done)))
   \<and> snd (Open ''123'' (mycomponent_example (Fails (ComponentError ''open failed''))
          (Fails (ComponentError ''close failed''))))
       = Some (ComponentError ''open failed'')
   \<and> logged (ComponentError ''open failed'')
        (fst (Open ''123'' (mycomponent_example (Fails (ComponentError ''open failed''))
          (Fails (ComponentError ''close failed'')))))
   \<and> logged (ComponentError ''close failed'')
        (fst (Open ''123'' (mycomponent_example (Fails (ComponentError ''open failed''))
          (Fails (ComponentError ''close failed'')))))
   \<and> snd (Open ''123'' (mycomponent_example (Panics (PanicString ''open failed''))
          (Panics (PanicString ''close failed''))))
       = Some (ErrorsNew ''open failed'')
   \<and> logged (ErrorsNew ''open failed'')
        (fst (Open ''123'' (mycomponent_example (Panics (PanicString ''open failed''))
          (Panics (PanicString ''close failed'')))))
   \<and> logged (ErrorsNew ''close failed'')
        (fst (Open ''123'' (mycomponent_example (Panics (PanicString ''open failed''))
          (Panics (PanicString ''close failed'')))))
   \<and> logged (ErrorsNew ''unset failed'')
        (fst (Open ''123'' (nested_example Returns (Some (Raises (PanicString ''unset failed'')))
          (Fails (ComponentError ''open failed'')) Done)))"
proof -
  let ?bad = "ConfigError ''BAD_CONFIG'' ''Component configuration must have descriptor or type''"
  have "snd (ReadContainerConfigFromConfig malformed_params) = Some ?bad" by code_simp
  with errors_returned_or_logged [where conf = malformed_params and c = NewEmptyContainer and e = ?bad]
  have w1: "Configure malformed_params NewEmptyContainer = NewEmptyContainer\<lparr>config := []\<rparr>"
    by blast

  let ?A = "fst (Open ''123'' (mycomponent_example Done (Fails (ComponentError ''close failed''))))"
  have "references ?A = Some (the (references ?A))"
    "unreferenceable ?A \<in> {None, Some Returns}"
    "References_Close ''123'' (the (references ?A)) = Fails (ComponentError ''close failed'')"
    by code_simp+
  with errors_returned_or_logged [where c = ?A and refs = "the (references ?A)"
      and correlationId = "''123''" and e = "ComponentError ''close failed''"]
  have w2: "snd (Close ''123'' ?A) = Some (ComponentError ''close failed'')"
    "logged (ComponentError ''close failed'') (fst (Close ''123'' ?A))"
    by blast+

  let ?B = "fst (Open ''123'' (mycomponent_example Done (Panics (PanicString ''close failed''))))"
  have "references ?B = Some (the (references ?B))"
    "unreferenceable ?B \<in> {None, Some Returns}"
    "References_Close ''123'' (the (references ?B)) = Panics (PanicString ''close failed'')"
    by code_simp+
  with errors_returned_or_logged [where c = ?B and refs = "the (references ?B)"
      and correlationId = "''123''" and p = "PanicString ''close failed''"]
  have "logged (Close_recoverErr (PanicString ''close failed'')) (fst (Close ''123'' ?B))"
    by blast
  then have w3: "logged (ErrorsNew ''close failed'') (fst (Close ''123'' ?B))" by simp

  let ?C = "fst (Open ''123''
          (nested_example Returns (Some (Raises (PanicString ''unset failed''))) Done Done))"
  have "references ?C = Some (the (references ?C))"
    "unreferenceable ?C = Some (Raises (PanicString ''unset failed''))"
    by code_simp+
  with errors_returned_or_logged [where c = ?C and refs = "the (references ?C)"
      and correlationId = "''123''" and p = "PanicString ''unset failed''"]
  have "logged (Close_recoverErr (PanicString ''unset failed'')) (fst (Close ''123'' ?C))"
    by blast
  then have w4: "logged (ErrorsNew ''unset failed'') (fst (Close ''123'' ?C))" by simp

  let ?unresolved = "BuildError (NewDescriptor ''mygroup'' ''mycomponent1'' ''default'' ''default'' ''1.0'')"
  have "references unresolvable_example = None"
    "PutFromConfig (snd (initReferences unresolvable_example NewContainerReferences))
       (config unresolvable_example) = (populated_of unresolvable_example, Some ?unresolved)"
    by code_simp+
  with errors_returned_or_logged [where c = unresolvable_example
      and refs = "populated_of unresolvable_example"
      and correlationId = "''123''" and e = ?unresolved]
  have w5: "snd (Open ''123'' unresolvable_example) = Some ?unresolved" by blast

  let ?D = "nested_example (Raises (PanicOther ''42'')) None Done Done"
  have "references ?D = None"
    "PutFromConfig (snd (initReferences ?D NewContainerReferences)) (config ?D)
       = (populated_of ?D, None)"
    "referenceable ?D = Some (Raises (PanicOther ''42''))"
    by code_simp+
  with errors_returned_or_logged [where c = ?D and refs = "populated_of ?D"
      and correlationId = "''123''" and p = "PanicOther ''42''"]
  have "snd (Open ''123'' ?D) = Some (Open_recoverErr (PanicOther ''42''))
      \<and> logged (Open_recoverErr (PanicOther ''42'')) (fst (Open ''123'' ?D))"
    by blast
  then have w6: "snd (Open ''123'' ?D) = Some (ErrorsNew [])"
    "logged (ErrorsNew []) (fst (Open ''123'' ?D))" by simp_all

  let ?E = "mycomponent_example (Fails (ComponentError ''open failed''))
          (Fails (ComponentError ''close failed''))"
  have "references ?E = None"
    "PutFromConfig (snd (initReferences ?E NewContainerReferences)) (config ?E)
       = (populated_of ?E, None)"
    "referenceable ?E \<in> {None, Some Returns}"
    "unreferenceable ?E \<in> {None, Some Returns}"
    "References_Open ''123'' (populated_of ?E) = Fails (ComponentError ''open failed'')"
    "References_Close ''123'' (populated_of ?E) = Fails (ComponentError ''close failed'')"
    by code_simp+
  with errors_returned_or_logged [where c = ?E and refs = "populated_of ?E"
      and correlationId = "''123''" and e = "ComponentError ''open failed''"
      and e' = "ComponentError ''open failed''" and e'' = "ComponentError ''close failed''"]
  have w7: "snd (Open ''123'' ?E) = Some (ComponentError ''open failed'')"
    "logged (ComponentError ''open failed'') (fst (Open ''123'' ?E))"
    "logged (ComponentError ''close failed'') (fst (Open ''123'' ?E))"
    by blast+

  let ?F = "mycomponent_example (Panics (PanicString ''open failed''))
          (Panics (PanicString ''close failed''))"
  have "references ?F = None"
    "PutFromConfig (snd (initReferences ?F NewContainerReferences)) (config ?F)
       = (populated_of ?F, None)"
    "referenceable ?F \<in> {None, Some Returns}"
    "unreferenceable ?F \<in> {None, Some Returns}"
    "References_Open ''123'' (populated_of ?F) = Panics (PanicString ''open failed'')"
    "References_Close ''123'' (populated_of ?F) = Panics (PanicString ''close failed'')"
    by code_simp+
  with errors_returned_or_logged [where c = ?F and refs = "populated_of ?F"
      and correlationId = "''123''" and p = "PanicString ''open failed''"
      and e' = "Open_recoverErr (PanicString ''open failed'')"
      and p' = "PanicString ''close failed''"]
  have "snd (Open ''123'' ?F) = Some (Open_recoverErr (PanicString ''open failed''))"
    "logged (Open_recoverErr (PanicString ''open failed'')) (fst (Open ''123'' ?F))"
    "logged (Close_recoverErr (PanicString ''close failed'')) (fst (Open ''123'' ?F))"
    by blast+
  then have w8: "snd (Open ''123'' ?F) = Some (ErrorsNew ''open failed'')"
    "logged (ErrorsNew ''open failed'') (fst (Open ''123'' ?F))"
    "logged (ErrorsNew ''close failed'') (fst (Open ''123'' ?F))"
    by simp_all

  let ?G = "nested_example Returns (Some (Raises (PanicString ''unset failed'')))
          (Fails (ComponentError ''open failed'')) Done"
  have "references ?G = None"
    "PutFromConfig (snd (initReferences ?G NewContainerReferences)) (config ?G)
       = (populated_of ?G, None)"
    "snd (Open ''123'' ?G) = Some (ComponentError ''open failed'')"
    "unreferenceable ?G = Some (Raises (PanicString ''unset failed''))"
    by code_simp+
  with errors_returned_or_logged [where c = ?G and refs = "populated_of ?G"
      and correlationId = "''123''" and e' = "ComponentError ''open failed''"
      and p' = "PanicString ''unset failed''"]
  have "logged (Close_recoverErr (PanicString ''unset failed'')) (fst (Open ''123'' ?G))"
    by blast
  then have w9: "logged (ErrorsNew ''unset failed'') (fst (Open ''123'' ?G))" by simp

  from w1 w2 w3 w4 w5 w6 w7 w8 w9 show ?thesis by blast
qed

text \<open>
  C6 as stated does not hold: on parameters whose section has neither a descriptor nor a
  type the reader returns a ConfigError, and Configure leaves the new empty container as
  it was, with an empty journal; the Open that follows succeeds and no logger call of it
  carries an error.
\<close>

theorem Configure_swallows_ConfigError:
  "ReadContainerConfigFromConfig malformed_params =
     ([], Some (ConfigError ''BAD_CONFIG'' ''Component configuration must have descriptor or type''))
   \<and> Configure malformed_params NewEmptyContainer = NewEmptyContainer
   \<and> journal (Configure malformed_params NewEmptyContainer) = []
   \<and> journal (fst (Open ''123'' (Configure malformed_params NewEmptyContainer))) =
       [\<lparr>via = NullLogger, level = LevelTrace, correlation = ''123'', cause = None,
         message = ''Starting container.'', arguments = []\<rparr>,
        \<lparr>via = CompositeLogger [], level = LevelInfo, correlation = ''123'', cause = None,
         message = ''Container %s started'', arguments = [''unknown'']\<rparr>]
   \<and> snd (Open ''123'' (Configure malformed_params NewEmptyContainer)) = None"
  by code_simp

section \<open>Failing inputs\<close>

text \<open>
  C1. The specification states that Open on a configuration with an unresolvable section
  returns a build error and leaves the container closed. Open returns the build error at line 237
  without a rollback Close: the registry assigned at line 233 stays set, so the container
  is open afterwards, nothing but the trace entry was logged, and a second Open is
  refused as already opened.
\<close>

theorem Open_build_error_stays_open:
  "IsOpen unresolvable_example = False
   \<and> snd (Open ''123'' unresolvable_example) =
       Some (BuildError (NewDescriptor ''mygroup'' ''mycomponent1'' ''default'' ''default'' ''1.0''))
   \<and> IsOpen (fst (Open ''123'' unresolvable_example)) = True
   \<and> journal (fst (Open ''123'' unresolvable_example)) =
       [\<lparr>via = NullLogger, level = LevelTrace, correlation = ''123'', cause = None,
         message = ''Starting container.'', arguments = []\<rparr>]
   \<and> snd (Open ''123'' (fst (Open ''123'' unresolvable_example))) =
       Some (InvalidStateError ''123'' ''ALREADY_OPENED'' ''Container was already opened'')"
  by code_simp

text \<open>
  C2. The specification states that \<^verbatim>\<open>IsOpen()\<close> is false after any Close, also one
  interrupted by a captured fault. A component whose \<^verbatim>\<open>Close\<close> panics leaves the body of Close before the
  registry reference is cleared (line 300), and the deferred function only logs: the
  container that was opened without error is still open after Close.
\<close>

theorem Close_fault_stays_open:
  "snd (Open ''123'' (mycomponent_example Done (Panics (PanicString ''close failed'')))) = None
   \<and> IsOpen (fst (Open ''123'' (mycomponent_example Done (Panics (PanicString ''close failed''))))) = True
   \<and> IsOpen (fst (Close ''123''
         (fst (Open ''123'' (mycomponent_example Done (Panics (PanicString ''close failed''))))))) = True"
  by code_simp

text \<open>
  C3. The specification states that a fault in a component's close path is converted into
  the error that Close returns. The registry's \<^verbatim>\<open>Close\<close> of the container below panics; the
  fault is captured and logged, but Close returns nil.
\<close>

theorem Close_fault_returns_nil:
  "References_Close ''123''
      (the (references (fst (Open ''123''
         (mycomponent_example Done (Panics (PanicString ''close failed'')))))))
     = Panics (PanicString ''close failed'')
   \<and> snd (Close ''123''
         (fst (Open ''123'' (mycomponent_example Done (Panics (PanicString ''close failed'')))))) = None
   \<and> logged (ErrorsNew ''close failed'')
        (fst (Close ''123''
          (fst (Open ''123'' (mycomponent_example Done (Panics (PanicString ''close failed'')))))))"
  by code_simp

text \<open>
  C4. The specification states that a fault in a component's open path is returned as an
  error, logged, and rolled back so that the container ends closed. With a component whose
  \<^verbatim>\<open>Open\<close> and \<^verbatim>\<open>Close\<close> both panic, Open returns and logs the converted fault, but the
  rollback Close is left by the second panic and the container stays open.
\<close>

theorem Open_fault_rollback_fault_stays_open:
  "IsOpen (mycomponent_example (Panics (PanicString ''open failed''))
              (Panics (PanicString ''close failed''))) = False
   \<and> snd (Open ''123'' (mycomponent_example (Panics (PanicString ''open failed''))
              (Panics (PanicString ''close failed''))))
       = Some (ErrorsNew ''open failed'')
   \<and> logged (ErrorsNew ''open failed'')
        (fst (Open ''123'' (mycomponent_example (Panics (PanicString ''open failed''))
              (Panics (PanicString ''close failed'')))))
   \<and> IsOpen (fst (Open ''123'' (mycomponent_example (Panics (PanicString ''open failed''))
              (Panics (PanicString ''close failed''))))) = True"
  by code_simp

end
